theory Spec2Isabelle
  imports Main "HOL-Library.Sublist"
begin

section \<open>Strings, arrays and numbers of the host language\<close>


text \<open>\<open>s.split(c)\<close> for a separator of one character: the result is never empty.\<close>

fun split_on :: "char \<Rightarrow> string \<Rightarrow> string list" where
  "split_on c [] = [[]]"
| "split_on c (x # xs) =
     (if x = c then [] # split_on c xs
      else (case split_on c xs of
              [] \<Rightarrow> [[x]]
            | w # ws \<Rightarrow> (x # w) # ws))"















section \<open>The default version code\<close>





section \<open>Paths and the file system\<close>

text \<open>
  A path is the list of its names from the root of the file system: paths are absolute
  and normalised, a trailing separator is not represented. \<open>path.join\<close> appends the
  names of a string and normalises: empty names and \<open>.\<close> vanish, \<open>..\<close> drops the
  last name; \<open>path.dirname\<close> and \<open>path.resolve(p, '..')\<close> drop the last name, and
  the root is its own parent.
\<close>

type_synonym path = "string list"

definition join_step :: "path \<Rightarrow> string \<Rightarrow> path" where
  "join_step p n =
     (if n = [] \<or> n = ''.'' then p else if n = ''..'' then butlast p else p @ [n])"

definition join :: "path \<Rightarrow> string \<Rightarrow> path" where
  "join p s = foldl join_step p (split_on (CHR ''/'') s)"

definition dirname :: "path \<Rightarrow> path" where
  "dirname p = butlast p"

definition basename :: "path \<Rightarrow> string" where
  "basename p = (if p = [] then [] else last p)"

definition ends_with :: "string \<Rightarrow> string \<Rightarrow> bool" where
  "ends_with suf s = (length suf \<le> length s \<and> drop (length s - length suf) s = suf)"

definition hidden :: "string \<Rightarrow> bool" where
  "hidden n = (case n of [] \<Rightarrow> False | c # _ \<Rightarrow> c = CHR ''.'')"

text \<open>
  The file system is a finite table from paths to nodes, in directory order. The root
  always exists and is a directory.
\<close>

datatype node = File string | Dir

type_synonym filesystem = "(path \<times> node) list"

definition lookup :: "filesystem \<Rightarrow> path \<Rightarrow> node option" where
  "lookup fs p = (if p = [] then Some Dir else map_of fs p)"

definition existsSync :: "filesystem \<Rightarrow> path \<Rightarrow> bool" where
  "existsSync fs p = (lookup fs p \<noteq> None)"

definition is_dir :: "filesystem \<Rightarrow> path \<Rightarrow> bool" where
  "is_dir fs p = (lookup fs p = Some Dir)"

text \<open>Writing a node keeps the place of an entry that exists and appends a new one.\<close>

fun put :: "path \<Rightarrow> node \<Rightarrow> filesystem \<Rightarrow> filesystem" where
  "put p n [] = [(p, n)]"
| "put p n ((q, m) # fs) = (if q = p then (p, n) # fs else (q, m) # put p n fs)"




text \<open>
  Errors. A \<open>CordovaError\<close> is thrown by the program itself; the others are thrown by
  the runtime: a failing call of the \<open>fs\<close> module, with its code.
\<close>

datatype error = CordovaError string | FsError string

text \<open>
  \<open>fs.mkdirSync\<close> makes one directory and throws when the path exists or has no
  parent directory; \<open>fs.rmdirSync\<close> removes an empty directory.
\<close>

definition mkdirSync :: "path \<Rightarrow> filesystem \<Rightarrow> error + filesystem" where
  "mkdirSync p fs =
     (if existsSync fs p then Inl (FsError ''EEXIST'')
      else if lookup fs (dirname p) = None then Inl (FsError ''ENOENT'')
      else if lookup fs (dirname p) \<noteq> Some Dir then Inl (FsError ''ENOTDIR'')
      else Inr (put p Dir fs))"




text \<open>
  \<open>shell.cp('-f', src, dest)\<close> for one source: a file is copied into \<open>dest\<close> when that
  is a directory and onto \<open>dest\<close> otherwise; nothing is copied when the source is not a
  file or the target has no parent directory.
\<close>

definition cp_f :: "path \<Rightarrow> path \<Rightarrow> filesystem \<Rightarrow> filesystem" where
  "cp_f src dest fs =
     (case lookup fs src of
        Some (File c) \<Rightarrow>
          (if is_dir fs dest then put (dest @ [basename src]) (File c) fs
           else if is_dir fs (dirname dest) then put dest (File c) fs
           else fs)
      | _ \<Rightarrow> fs)"




section \<open>Image resources\<close>

definition replace_png_suffix :: "string \<Rightarrow> string" where
  "replace_png_suffix name =
     (if ends_with ''.png'' name then take (length name - 4) name @ ''.9.png'' else name)"

text \<open>
  \<open>name.replace(/\.png$/, '.9.png')\<close>, and \<open>copyImage\<close>. The source path ends in
  \<open>.9.png\<close> when its last name does. \<open>fs.mkdirSync\<close> may throw.
\<close>

definition copyImage :: "path \<Rightarrow> path \<Rightarrow> string \<Rightarrow> string \<Rightarrow> filesystem \<Rightarrow> error + filesystem" where
  "copyImage src resourcesDir density name fs =
     (let destFolder = join resourcesDir ((if density \<noteq> [] then ''drawable-'' else ''drawable'') @ density);
          isNinePatch = ends_with ''.9.png'' (basename src);
          ninePatchName = replace_png_suffix name
      in case (if \<not> existsSync fs destFolder then mkdirSync destFolder fs else Inr fs) of
           Inl e \<Rightarrow> Inl e
         | Inr fs1 \<Rightarrow>
             (let destFilePath = join destFolder (if isNinePatch then ninePatchName else name)
              in Inr (cp_f src destFilePath fs1)))"


text \<open>A plain name: one name of a path, neither empty nor \<open>.\<close> nor \<open>..\<close>.\<close>

definition plain_name :: "string \<Rightarrow> bool" where
  "plain_name n = (n \<noteq> [] \<and> n \<noteq> ''.'' \<and> n \<noteq> ''..'' \<and> CHR ''/'' \<notin> set n)"

text \<open>
  What claim C8 says of \<open>copyImage\<close>: the folder of a density and the name a file is
  stored under.
\<close>

definition drawable_folder :: "path \<Rightarrow> string \<Rightarrow> path" where
  "drawable_folder resourcesDir d =
     resourcesDir @ [if d = [] then ''drawable'' else ''drawable-'' @ d]"

definition stored_name :: "path \<Rightarrow> string \<Rightarrow> string" where
  "stored_name src n =
     (if ends_with ''.9.png'' (basename src) then replace_png_suffix n else n)"

section \<open>The project configuration\<close>

text \<open>
  An icon or splash screen of \<open>config.xml\<close>, as the configuration parser gives it. A
  missing attribute is \<open>None\<close>; an empty string and a size of zero are falsy like a
  missing attribute. A size is a number: only whether it is falsy and which key of the
  size table it equals matter here.
\<close>

record resource =
  src :: string
  density :: "string option"
  width :: "nat option"
  height :: "nat option"
  platform :: "string option"



text \<open>
  The parsed \<open>config.xml\<close>: the results of the methods of \<open>ConfigParser\<close> that the
  program calls. \<open>getIcons\<close> and \<open>getSplashScreens\<close> are the lists for the platform
  \<open>android\<close>, and \<open>defaultResource\<close> is the property of that name of the list of splash
  screens.
\<close>

record config =
  path :: path
  name :: string
  packageName :: string
  android_packageName :: "string option"
  version :: string
  android_versionCode :: "string option"
  getPreference :: "string \<Rightarrow> string option \<Rightarrow> string"
  getIcons :: "resource list"
  getSplashScreens :: "resource list"
  defaultResource :: "resource option"

section \<open>Icons and splash screens\<close>




















section \<open>An example project\<close>





section \<open>The platform project\<close>





section \<open>Updating the project from the configuration\<close>











text \<open>
  \<open>shell.sed(/package [\w\.]*;/, 'package ' + pkg + ';', file)\<close> replaces the first match
  in the contents of the file (\<open>shelljs\<close> 0.5). In the replacement, \<open>$$\<close> stands for a
  dollar sign, \<open>$&\<close> for the match, and \<open>$`\<close> and \<open>$'\<close> for the text before and after
  the match.
\<close>

definition word_char :: "char \<Rightarrow> bool" where
  "word_char c =
     (let n = (of_char c :: nat)
      in (48 \<le> n \<and> n \<le> 57) \<or> (65 \<le> n \<and> n \<le> 90) \<or> (97 \<le> n \<and> n \<le> 122) \<or> n = 95)"

text \<open>The match of the pattern at the start of a string and the rest after it.\<close>

definition package_at :: "string \<Rightarrow> (string \<times> string) option" where
  "package_at s =
     (if prefix ''package '' s
      then (let nm = takeWhile (\<lambda>c. word_char c \<or> c = CHR ''.'') (drop 8 s);
                rest = dropWhile (\<lambda>c. word_char c \<or> c = CHR ''.'') (drop 8 s)
            in case rest of
                 [] \<Rightarrow> None
               | c # post \<Rightarrow> if c = CHR '';'' then Some (''package '' @ nm @ '';'', post) else None)
      else None)"

fun expand_replacement :: "string \<Rightarrow> string \<Rightarrow> string \<Rightarrow> string \<Rightarrow> string" where
  "expand_replacement pre matched post (a # b # r) =
     (if a = CHR ''$'' \<and> b = CHR ''$'' then CHR ''$'' # expand_replacement pre matched post r
      else if a = CHR ''$'' \<and> b = CHR ''&'' then matched @ expand_replacement pre matched post r
      else if a = CHR ''$'' \<and> b = CHR 0x60 then pre @ expand_replacement pre matched post r
      else if a = CHR ''$'' \<and> b = CHR 0x27 then post @ expand_replacement pre matched post r
      else a # expand_replacement pre matched post (b # r))"
| "expand_replacement pre matched post r = r"

fun sed_from :: "string \<Rightarrow> string \<Rightarrow> string \<Rightarrow> string" where
  "sed_from replacement pre [] =
     (case package_at [] of
        None \<Rightarrow> pre
      | Some (matched, post) \<Rightarrow> pre @ expand_replacement pre matched post replacement @ post)"
| "sed_from replacement pre (c # s) =
     (case package_at (c # s) of
        None \<Rightarrow> sed_from replacement (pre @ [c]) s
      | Some (matched, post) \<Rightarrow> pre @ expand_replacement pre matched post replacement @ post)"

definition sed_package :: "string \<Rightarrow> string \<Rightarrow> string" where
  "sed_package pkg contents = sed_from (''package '' @ pkg @ '';'') [] contents"











section \<open>An example platform project\<close>




section \<open>Updating the web assets\<close>






text \<open>
  The content of a layer at a place \<open>r\<close> below its directory, as the pattern \<open>*\<close> sees
  it: nothing at the directory itself and nothing below a hidden first name.
\<close>

definition layer :: "filesystem \<Rightarrow> path \<Rightarrow> path \<Rightarrow> node option" where
  "layer fs dir r = (if r = [] \<or> hidden (hd r) then None else lookup fs (dir @ r))"

definition over :: "node option \<Rightarrow> node option \<Rightarrow> node option" where
  "over upper lower = (case upper of None \<Rightarrow> lower | Some n \<Rightarrow> Some n)"

section \<open>Updating the configuration files\<close>


section \<open>Preparing the platform\<close>






section \<open>An example application project\<close>






section \<open>Properties of the default version code\<close>

lemma split_on_not_Nil: "split_on c s \<noteq> []"
  by (induction s) (auto split: list.splits)

lemma hd_split_on: "hd (split_on c s) = takeWhile (\<lambda>x. x \<noteq> c) s"
  by (induction s) (auto split: list.splits simp: split_on_not_Nil)

lemma split_on_free: "w \<in> set (split_on c s) \<Longrightarrow> c \<notin> set w"
  by (induction s arbitrary: w) (auto split: list.splits if_splits)

lemma split_on_subset: "w \<in> set (split_on c s) \<Longrightarrow> set w \<subseteq> set s"
  by (induction s arbitrary: w) (fastforce split: list.splits if_splits)+

lemma nums_free:
  assumes "w \<in> set (split_on (CHR ''.'') (hd (split_on (CHR ''-'') vs)))"
  shows "CHR ''.'' \<notin> set w \<and> CHR ''-'' \<notin> set w"
proof
  show "CHR ''.'' \<notin> set w"
    using assms by (rule split_on_free)
  have "set w \<subseteq> set (takeWhile (\<lambda>x. x \<noteq> CHR ''-'') vs)"
    using split_on_subset [OF assms] by (simp add: hd_split_on)
  then show "CHR ''-'' \<notin> set w"
    by (auto dest: set_takeWhileD)
qed









section \<open>Properties of paths and of the file system\<close>

lemma split_on_absent: "c \<notin> set s \<Longrightarrow> split_on c s = [s]"
  by (induction s) auto

lemma join_plain: "plain_name n \<Longrightarrow> join p n = p @ [n]"
  by (simp add: join_def plain_name_def split_on_absent join_step_def)

lemma map_of_put: "map_of (put p n fs) q = (if q = p then Some n else map_of fs q)"
  by (induction fs) auto

lemma lookup_put:
  "p \<noteq> [] \<Longrightarrow> lookup (put p n fs) q = (if q = p then Some n else lookup fs q)"
  by (simp add: lookup_def map_of_put)

lemma plain_drawable:
  "CHR ''/'' \<notin> set d \<Longrightarrow> plain_name ((if d \<noteq> [] then ''drawable-'' else ''drawable'') @ d)"
  by (simp add: plain_name_def)

lemma plain_replace_png_suffix: "plain_name n \<Longrightarrow> plain_name (replace_png_suffix n)"
  by (auto simp: plain_name_def replace_png_suffix_def dest: in_set_takeD)

lemma plain_stored_name: "plain_name n \<Longrightarrow> plain_name (stored_name source n)"
  by (simp add: stored_name_def plain_replace_png_suffix)

lemma copyImage_join:
  assumes "CHR ''/'' \<notin> set d" and "plain_name n"
  shows "join resourcesDir ((if d \<noteq> [] then ''drawable-'' else ''drawable'') @ d)
           = drawable_folder resourcesDir d"
    and "join (drawable_folder resourcesDir d)
           (if ends_with ''.9.png'' (basename source) then replace_png_suffix n else n)
           = drawable_folder resourcesDir d @ [stored_name source n]"
proof -
  show "join resourcesDir ((if d \<noteq> [] then ''drawable-'' else ''drawable'') @ d)
           = drawable_folder resourcesDir d"
    using join_plain [OF plain_drawable [OF assms(1)]] by (simp add: drawable_folder_def)
  show "join (drawable_folder resourcesDir d)
           (if ends_with ''.9.png'' (basename source) then replace_png_suffix n else n)
           = drawable_folder resourcesDir d @ [stored_name source n]"
    using join_plain [OF plain_stored_name [OF assms(2)], of _ source]
    by (simp add: stored_name_def)
qed

section \<open>Properties of copyImage\<close>

text \<open>
  Claim C8: a call of \<open>copyImage\<close> with density \<open>d\<close> and name \<open>n\<close> has the folder
  \<open>drawable-d\<close> of the resources directory as its destination when \<open>d\<close> is not empty and
  the folder \<open>drawable\<close> when it is; the folder is a directory afterwards, made when it
  did not exist; the file is stored there under \<open>n\<close> with its suffix \<open>.png\<close> replaced by
  \<open>.9.png\<close> when the source path ends in \<open>.9.png\<close>, and under \<open>n\<close> otherwise. Nothing
  else changes.
\<close>

theorem copyImage_stores:
  assumes d: "CHR ''/'' \<notin> set d" and n: "plain_name n"
    and res: "is_dir fs resourcesDir"
    and source: "lookup fs source = Some (File c)"
    and folder: "lookup fs (drawable_folder resourcesDir d) = None \<or>
                 is_dir fs (drawable_folder resourcesDir d)"
    and target: "\<not> is_dir fs (drawable_folder resourcesDir d @ [stored_name source n])"
  shows "\<exists>fs'. copyImage source resourcesDir d n fs = Inr fs' \<and>
           is_dir fs' (drawable_folder resourcesDir d) \<and>
           lookup fs' (drawable_folder resourcesDir d @ [stored_name source n]) = Some (File c) \<and>
           (\<forall>p. p \<noteq> drawable_folder resourcesDir d \<and>
                p \<noteq> drawable_folder resourcesDir d @ [stored_name source n]
                \<longrightarrow> lookup fs' p = lookup fs p)"
proof -
  let ?folder = "drawable_folder resourcesDir d"
  let ?file = "?folder @ [stored_name source n]"
  have ne: "?folder \<noteq> []" and parent: "dirname ?folder = resourcesDir"
    by (simp_all add: drawable_folder_def dirname_def)
  define fs1 where "fs1 = (if existsSync fs ?folder then fs else put ?folder Dir fs)"
  have mk: "(if \<not> existsSync fs ?folder then mkdirSync ?folder fs else Inr fs) = Inr fs1"
    using res by (simp add: fs1_def mkdirSync_def parent is_dir_def existsSync_def)
  have dir1: "is_dir fs1 ?folder"
    using folder ne by (auto simp: fs1_def is_dir_def existsSync_def lookup_put)
  have same1: "lookup fs1 p = lookup fs p" if "p \<noteq> ?folder" for p
    using that ne by (simp add: fs1_def lookup_put)
  have "source \<noteq> ?folder"
    using source folder by (auto simp: is_dir_def)
  then have source1: "lookup fs1 source = Some (File c)"
    using source same1 [of source] by simp
  have target1: "\<not> is_dir fs1 ?file"
    using target same1 [of ?file] by (simp add: is_dir_def)
  have cp: "cp_f source ?file fs1 = put ?file (File c) fs1"
    using source1 target1 dir1 by (simp add: cp_f_def dirname_def)
  have run: "copyImage source resourcesDir d n fs = Inr (put ?file (File c) fs1)"
    unfolding copyImage_def Let_def copyImage_join [OF d n] mk
    by (simp add: cp)
  have "is_dir (put ?file (File c) fs1) ?folder"
    using dir1 by (simp add: is_dir_def lookup_put)
  moreover have "lookup (put ?file (File c) fs1) ?file = Some (File c)"
    by (simp add: lookup_put)
  moreover have "lookup (put ?file (File c) fs1) p = lookup fs p"
    if "p \<noteq> ?folder \<and> p \<noteq> ?file" for p
    using that same1 [of p] by (simp add: lookup_put)
  ultimately show ?thesis
    using run by blast
qed

theorem copyImage_stores_witness:
  "CHR ''/'' \<notin> set ''hdpi'' \<and> plain_name ''icon.png'' \<and>
   is_dir [([''res''], Dir), ([''a.9.png''], File ''img'')] [''res''] \<and>
   lookup [([''res''], Dir), ([''a.9.png''], File ''img'')] [''a.9.png''] = Some (File ''img'') \<and>
   lookup [([''res''], Dir), ([''a.9.png''], File ''img'')] (drawable_folder [''res''] ''hdpi'') = None \<and>
   \<not> is_dir [([''res''], Dir), ([''a.9.png''], File ''img'')]
       (drawable_folder [''res''] ''hdpi'' @ [stored_name [''a.9.png''] ''icon.png'']) \<and>
   (\<exists>fs'. copyImage [''a.9.png''] [''res''] ''hdpi'' ''icon.png''
            [([''res''], Dir), ([''a.9.png''], File ''img'')] = Inr fs' \<and>
          is_dir fs' [''res'', ''drawable-hdpi''] \<and>
          lookup fs' [''res'', ''drawable-hdpi'', ''icon.9.png''] = Some (File ''img''))"
proof -
  let ?fs = "[([''res''], Dir), ([''a.9.png''], File ''img'')]"
  have h1: "CHR ''/'' \<notin> set ''hdpi''" and h2: "plain_name ''icon.png''"
    by (simp_all add: plain_name_def)
  have h3: "is_dir ?fs [''res'']"
    and h4: "lookup ?fs [''a.9.png''] = Some (File ''img'')"
    and h5: "lookup ?fs (drawable_folder [''res''] ''hdpi'') = None"
    and h6: "\<not> is_dir ?fs (drawable_folder [''res''] ''hdpi'' @ [stored_name [''a.9.png''] ''icon.png''])"
    by (simp_all add: is_dir_def lookup_def drawable_folder_def)
  have names: "drawable_folder [''res''] ''hdpi'' = [''res'', ''drawable-hdpi'']"
    "stored_name [''a.9.png''] ''icon.png'' = ''icon.9.png''"
    by (simp_all add: drawable_folder_def stored_name_def basename_def ends_with_def
        replace_png_suffix_def)
  from copyImage_stores [OF h1 h2 h3 h4 disjI1 [OF h5] h6]
  have "\<exists>fs'. copyImage [''a.9.png''] [''res''] ''hdpi'' ''icon.png'' ?fs = Inr fs' \<and>
          is_dir fs' [''res'', ''drawable-hdpi''] \<and>
          lookup fs' [''res'', ''drawable-hdpi'', ''icon.9.png''] = Some (File ''img'')"
    unfolding names by auto
  with h1 h2 h3 h4 h5 h6 show ?thesis
    by blast
qed

section \<open>Properties of the selection of icons\<close>














section \<open>The effect of a sequence of copies\<close>






section \<open>Removing the default resources\<close>






section \<open>Properties of handleIcons and handleSplashes\<close>




















section \<open>More properties of the file system\<close>












section \<open>The loop that removes empty directories\<close>


section \<open>Properties of the relocation of the main activity\<close>





section \<open>Properties of updateProjectAccordingTo\<close>













lemma sed_package_head:
  assumes "list_all (\<lambda>c. word_char c \<or> c = CHR ''.'') old" and "CHR ''$'' \<notin> set pkg"
  shows "sed_package pkg (''package '' @ old @ '';'' @ post) = ''package '' @ pkg @ '';'' @ post"
proof -
  have tw: "takeWhile (\<lambda>c. word_char c \<or> c = CHR ''.'') (old @ CHR '';'' # post) = old"
    and dw: "dropWhile (\<lambda>c. word_char c \<or> c = CHR ''.'') (old @ CHR '';'' # post) = CHR '';'' # post"
    using assms(1)
    by (simp_all add: takeWhile_append2 dropWhile_append2 list_all_iff word_char_def)
  have at: "package_at (''package '' @ old @ '';'' @ post) = Some (''package '' @ old @ '';'', post)"
    using tw dw by (simp add: package_at_def)
  have ex: "expand_replacement pre m po r = r" if "CHR ''$'' \<notin> set r" for pre m po r
    using that by (induction pre m po r rule: expand_replacement.induct) auto
  have "CHR ''$'' \<notin> set (''package '' @ pkg @ '';'')"
    using assms(2) by simp
  then have "expand_replacement [] (''package '' @ old @ '';'') post (''package '' @ pkg @ '';'')
             = ''package '' @ pkg @ '';''"
    by (rule ex)
  then show ?thesis
    using at by (simp add: sed_package_def)
qed


section \<open>The example platform project, updated\<close>







section \<open>Properties of updateWwwFrom\<close>

lemma over_None [simp]: "over x None = x" "over None y = y"
  by (simp_all add: over_def split: option.splits)

lemma layer_Nil [simp]: "layer fs dir [] = None"
  by (simp add: layer_def)







section \<open>Properties of updateConfigFilesFrom and prepare\<close>





end
